theory Spec2Isabelle
  imports Complex_Main
begin

section \<open>Conventions\<close>

text \<open>
  The development embeds the decision logic of \<^verbatim>\<open>src/bot.py\<close>: the rating lookup
  (\<^verbatim>\<open>get_team_stats\<close>), the logistic estimator (\<^verbatim>\<open>model_probability\<close>), the edge
  classifier (\<^verbatim>\<open>classify_edge\<close>), the market matcher (\<^verbatim>\<open>get_polymarket_probs\<close>), the
  report builder (\<^verbatim>\<open>build_report\<close>) and the dispatch in \<^verbatim>\<open>main\<close>.

  Python's \<^verbatim>\<open>float\<close> values are read as real numbers: \<^verbatim>\<open>math.exp\<close> is the real
  exponential, and subtraction, division, \<^verbatim>\<open>min\<close> and \<^verbatim>\<open>max\<close> are exact.  Rounding and
  the range error of \<^verbatim>\<open>math.exp\<close> on arguments above about 709.78 have no counterpart on
  the reals and are outside this model.  Python strings are character lists.
\<close>

section \<open>Rating store\<close>

text \<open>The dictionaries returned by \<^verbatim>\<open>get_team_stats\<close> always carry both keys.\<close>

record rating =
  off_rating :: real
  def_rating :: real

text \<open>The table \<^verbatim>\<open>mock_stats\<close> of lines 95 to 100.\<close>

definition mock_stats :: "int \<rightharpoonup> rating" where
  "mock_stats =
     [14 \<mapsto> \<lparr>off_rating = 115.2, def_rating = 108.7\<rparr>,
      2 \<mapsto> \<lparr>off_rating = 118.5, def_rating = 110.2\<rparr>,
      17 \<mapsto> \<lparr>off_rating = 112.8, def_rating = 109.1\<rparr>,
      15 \<mapsto> \<lparr>off_rating = 110.3, def_rating = 107.8\<rparr>]"

text \<open>
  Lines 102 to 107.  No statement of the \<^verbatim>\<open>try\<close> block raises for an integer
  identifier, so the handler of line 109 (which returns the same default) is not a branch.
\<close>

definition get_team_stats :: "int \<Rightarrow> rating" where
  "get_team_stats team_id =
     (case mock_stats team_id of
        Some stats \<Rightarrow> stats
      | None \<Rightarrow> \<lparr>off_rating = 110.0, def_rating = 110.0\<rparr>)"

section \<open>Model estimator\<close>

text \<open>
  Lines 193 to 210, for the two records that lines 189 and 190 looked up.  The only
  statement of the \<^verbatim>\<open>try\<close> block that can raise on real numbers is the division of
  line 202 (\<^verbatim>\<open>ZeroDivisionError\<close>); the handler of line 212 turns it into the neutral
  pair.
\<close>

definition model_probability_from :: "rating \<Rightarrow> rating \<Rightarrow> real \<times> real" where
  "model_probability_from home_stats away_stats =
     (let home_net = off_rating home_stats - def_rating home_stats;
          away_net = off_rating away_stats - def_rating away_stats;
          diff = home_net - away_net;
          denom = 1 + exp (- diff / 10)
      in if denom = 0 then (0.5, 0.5)
         else
           let prob_home = 1 / denom;
               prob_home = max 0 (min 1 prob_home);
               prob_away = 1 - prob_home
           in (prob_home, prob_away))"

definition model_probability :: "int \<Rightarrow> int \<Rightarrow> real \<times> real" where
  "model_probability home_team_id away_team_id =
     model_probability_from (get_team_stats home_team_id) (get_team_stats away_team_id)"

section \<open>Edge classifier\<close>

text \<open>
  The three marker strings of lines 225 to 229, as the UTF-8 bytes of the source file.
\<close>

definition good_marker :: string where
  "good_marker = [CHR 0xEF, CHR 0xA3, CHR 0xBF, CHR 0xC3, CHR 0xBC, CHR 0xC3, CHR 0xAD, CHR 0xC2, CHR 0xB0]"

definition small_marker :: string where
  "small_marker = [CHR 0xEF, CHR 0xA3, CHR 0xBF, CHR 0xC3, CHR 0xBC, CHR 0xC3, CHR 0xAC, CHR 0xC3, CHR 0xA0]"

definition none_marker :: string where
  "none_marker = [CHR 0xEF, CHR 0xA3, CHR 0xBF, CHR 0xC3, CHR 0xBC, CHR 0xC3, CHR 0x9F, CHR 0xC2, CHR 0xB1]"

definition classify_edge :: "real \<Rightarrow> real \<Rightarrow> string \<times> string \<times> real" where
  "classify_edge model_prob market_prob =
     (let edge = model_prob - market_prob
      in if edge \<ge> 0.07 then (''GOOD BET'', good_marker, edge)
         else if edge \<ge> 0.03 then (''SMALL EDGE'', small_marker, edge)
         else (''NO BET'', none_marker, edge))"

section \<open>Strings\<close>

text \<open>
  \<^verbatim>\<open>str.lower\<close>, \<^verbatim>\<open>str.replace\<close> and \<^verbatim>\<open>str.strip\<close> on ASCII text.  \<^verbatim>\<open>replace\<close>
  substitutes the non-overlapping occurrences from left to right; for an empty pattern
  Python inserts the new text before every character and at the end.
\<close>

definition lower_char :: "char \<Rightarrow> char" where
  "lower_char c =
     (let n = (of_char c :: nat) in if 65 \<le> n \<and> n \<le> 90 then char_of (n + 32) else c)"

definition lower :: "string \<Rightarrow> string" where
  "lower s = map lower_char s"

function replace :: "string \<Rightarrow> string \<Rightarrow> string \<Rightarrow> string" where
  "replace old new s =
     (if old = [] then new @ concat (map (\<lambda>c. c # new) s)
      else if s = [] then []
      else if take (length old) s = old then new @ replace old new (drop (length old) s)
      else hd s # replace old new (tl s))"
  by pat_completeness auto
termination
  by (relation "measure (\<lambda>(old, new, s). length s)") (auto simp: neq_Nil_conv)

declare replace.simps [simp del]

definition is_space :: "char \<Rightarrow> bool" where
  "is_space c =
     (let n = (of_char c :: nat) in (9 \<le> n \<and> n \<le> 13) \<or> (28 \<le> n \<and> n \<le> 32))"

definition strip :: "string \<Rightarrow> string" where
  "strip s = rev (dropWhile is_space (rev (dropWhile is_space s)))"

section \<open>Market matcher\<close>

text \<open>
  \<^verbatim>\<open>fuzz.partial_ratio\<close> belongs to the external library fuzzywuzzy; the matcher takes
  it as the parameter \<open>pr\<close>, a score from 0 to 100 for two strings.
\<close>

type_synonym scorer = "string \<Rightarrow> string \<Rightarrow> int"

text \<open>
  A market record of the decoded response, as section 3 of the specification types it:
  a title, a list of outcome labels and a list of prices.  Each of the three keys may be
  absent (\<open>None\<close>).  A price is a JSON number or \<^verbatim>\<open>null\<close>.
\<close>

datatype price = PNull | PNum real

record market =
  question :: "string option"
  outcomes :: "string list option"
  prices :: "price list option"

datatype py_error = RequestError | IndexError

text \<open>
  What lines 128 to 130 and the \<^verbatim>\<open>.get('data', [])\<close> of line 133 deliver: an exception
  of the request or of the decoding, or the list under the key \<^verbatim>\<open>data\<close> if there is one.
\<close>

type_synonym response = "py_error + market list option"

text \<open>\<^verbatim>\<open>market.get('outcomes', [])\<close> and \<^verbatim>\<open>market.get('prices', [])\<close>.\<close>

definition outcomes_of :: "market \<Rightarrow> string list" where
  "outcomes_of m = (case outcomes m of None \<Rightarrow> [] | Some os \<Rightarrow> os)"

definition prices_of :: "market \<Rightarrow> price list" where
  "prices_of m = (case prices m of None \<Rightarrow> [] | Some ps \<Rightarrow> ps)"

text \<open>Lines 138 to 141: the four variants of a team name.\<close>

definition variations :: "string \<Rightarrow> string list" where
  "variations team =
     [lower team, lower (replace '' '' [] team),
      lower (replace '' '' ''-'' team), lower (replace '' '' ''_'' team)]"

text \<open>Lines 135 and 144: the normalised title.\<close>

definition title_clean :: "string \<Rightarrow> string" where
  "title_clean q = strip (replace ''win vs'' ''vs'' (replace ''will the'' [] (lower q)))"

text \<open>Lines 147 and 148: some variant scores above 75 against the normalised title.\<close>

definition name_found :: "scorer \<Rightarrow> string \<Rightarrow> string \<Rightarrow> bool" where
  "name_found pr team title = list_ex (\<lambda>var. pr var title > 75) (variations team)"

text \<open>Lines 134 to 150: the market has a title and both names are found in it.\<close>

definition candidate :: "scorer \<Rightarrow> string \<Rightarrow> string \<Rightarrow> market \<Rightarrow> bool" where
  "candidate pr home_team away_team m =
     (case question m of
        None \<Rightarrow> False
      | Some q \<Rightarrow> name_found pr home_team (title_clean q) \<and> name_found pr away_team (title_clean q))"

text \<open>
  Lines 160 to 165: the loop over \<^verbatim>\<open>enumerate(outcomes)\<close>, with the running index \<open>i\<close>
  and the pair of indices found so far.  There is no \<^verbatim>\<open>break\<close>: a later match
  overwrites an earlier one, and the away name is tried only when the home name does not
  cross the threshold.
\<close>

fun outcome_loop :: "scorer \<Rightarrow> string \<Rightarrow> string \<Rightarrow> int \<Rightarrow> string list \<Rightarrow> int \<times> int \<Rightarrow> int \<times> int" where
  "outcome_loop pr home_team away_team i [] (home_outcome_idx, away_outcome_idx) =
     (home_outcome_idx, away_outcome_idx)"
| "outcome_loop pr home_team away_team i (outcome # rest) (home_outcome_idx, away_outcome_idx) =
     (let outcome_text = lower outcome
      in if pr (lower home_team) outcome_text > 75
         then outcome_loop pr home_team away_team (i + 1) rest (i, away_outcome_idx)
         else if pr (lower away_team) outcome_text > 75
         then outcome_loop pr home_team away_team (i + 1) rest (home_outcome_idx, i)
         else outcome_loop pr home_team away_team (i + 1) rest (home_outcome_idx, away_outcome_idx))"

text \<open>Lines 157 to 165.\<close>

definition resolve_outcomes :: "scorer \<Rightarrow> string \<Rightarrow> string \<Rightarrow> string list \<Rightarrow> int \<times> int" where
  "resolve_outcomes pr home_team away_team outs = outcome_loop pr home_team away_team 0 outs (- 1, - 1)"

text \<open>Python's list subscript: a negative index counts from the end, a miss raises.\<close>

definition subscript :: "'a list \<Rightarrow> int \<Rightarrow> py_error + 'a" where
  "subscript xs i =
     (let j = (if i < 0 then i + int (length xs) else i)
      in if 0 \<le> j \<and> j < int (length xs) then Inr (xs ! nat j) else Inl IndexError)"

text \<open>
  \<^verbatim>\<open>float(p) if p else 0.5\<close> of lines 168 and 169: \<^verbatim>\<open>null\<close> and the number zero are
  falsy.
\<close>

definition price_or_default :: "price \<Rightarrow> real" where
  "price_or_default p = (case p of PNull \<Rightarrow> 0.5 | PNum x \<Rightarrow> (if x \<noteq> 0 then x else 0.5))"

text \<open>Lines 168 to 172, for the two resolved indices.\<close>

definition extract_prices :: "price list \<Rightarrow> int \<Rightarrow> int \<Rightarrow> py_error + real \<times> real" where
  "extract_prices ps home_outcome_idx away_outcome_idx =
     (case subscript ps home_outcome_idx of
        Inl e \<Rightarrow> Inl e
      | Inr hp \<Rightarrow>
          (case subscript ps away_outcome_idx of
             Inl e \<Rightarrow> Inl e
           | Inr ap \<Rightarrow> Inr (price_or_default hp, price_or_default ap)))"

text \<open>
  Lines 134 to 172, the body of the loop over the markets: \<open>Inr None\<close> when control
  falls through to the next market, \<open>Inr (Some r)\<close> for \<^verbatim>\<open>return r\<close>, \<open>Inl e\<close> when
  \<open>e\<close> is raised.
\<close>

definition market_body :: "scorer \<Rightarrow> string \<Rightarrow> string \<Rightarrow> market \<Rightarrow> py_error + (real \<times> real) option" where
  "market_body pr home_team away_team m =
     (case question m of
        None \<Rightarrow> Inr None
      | Some q \<Rightarrow>
          (let title = title_clean q;
               home_found = name_found pr home_team title;
               away_found = name_found pr away_team title
           in if home_found \<and> away_found then
                (let outs = outcomes_of m; ps = prices_of m
                 in if length outs \<ge> 2 \<and> length ps \<ge> 2 then
                      (case resolve_outcomes pr home_team away_team outs of
                         (home_outcome_idx, away_outcome_idx) \<Rightarrow>
                           if home_outcome_idx \<noteq> - 1 \<and> away_outcome_idx \<noteq> - 1 then
                             (case extract_prices ps home_outcome_idx away_outcome_idx of
                                Inl e \<Rightarrow> Inl e
                              | Inr r \<Rightarrow> Inr (Some r))
                           else Inr None)
                    else Inr None)
              else Inr None))"

text \<open>Lines 133 to 176: the loop over the markets and the fall-through of line 176.\<close>

fun markets_loop :: "scorer \<Rightarrow> string \<Rightarrow> string \<Rightarrow> market list \<Rightarrow> py_error + real \<times> real" where
  "markets_loop pr home_team away_team [] = Inr (0.5, 0.5)"
| "markets_loop pr home_team away_team (m # ms) =
     (case market_body pr home_team away_team m of
        Inl e \<Rightarrow> Inl e
      | Inr (Some r) \<Rightarrow> Inr r
      | Inr None \<Rightarrow> markets_loop pr home_team away_team ms)"

text \<open>Lines 123 to 181: the handler of line 178 turns every exception into the neutral pair.\<close>

definition get_polymarket_probs :: "scorer \<Rightarrow> string \<Rightarrow> string \<Rightarrow> response \<Rightarrow> real \<times> real" where
  "get_polymarket_probs pr home_team away_team resp =
     (case resp of
        Inl e \<Rightarrow> (0.5, 0.5)
      | Inr data \<Rightarrow>
          (case markets_loop pr home_team away_team (case data of None \<Rightarrow> [] | Some ms \<Rightarrow> ms) of
             Inl e \<Rightarrow> (0.5, 0.5)
           | Inr r \<Rightarrow> r))"

text \<open>
  A market is usable when it is a candidate, lists at least two outcomes and two
  prices (line 155) and both sides are resolved (line 167).
\<close>

definition usable :: "scorer \<Rightarrow> string \<Rightarrow> string \<Rightarrow> market \<Rightarrow> bool" where
  "usable pr home_team away_team m =
     (candidate pr home_team away_team m
      \<and> length (outcomes_of m) \<ge> 2 \<and> length (prices_of m) \<ge> 2
      \<and> fst (resolve_outcomes pr home_team away_team (outcomes_of m)) \<noteq> - 1
      \<and> snd (resolve_outcomes pr home_team away_team (outcomes_of m)) \<noteq> - 1)"

text \<open>
  A scorer for concrete evaluations: 100 when the shorter of the two strings occurs in
  the longer one, 0 otherwise.
\<close>

fun occurs_in :: "string \<Rightarrow> string \<Rightarrow> bool" where
  "occurs_in xs [] = (xs = [])"
| "occurs_in xs (y # ys) = (take (length xs) (y # ys) = xs \<or> occurs_in xs ys)"

definition containment_score :: scorer where
  "containment_score s1 s2 =
     (if length s1 \<le> length s2
      then (if occurs_in s1 s2 then 100 else 0)
      else (if occurs_in s2 s1 then 100 else 0))"

section \<open>Example quotes\<close>

text \<open>Market records for the concrete evaluations of the properties below.\<close>

definition totals_quote :: market where
  "totals_quote =
     \<lparr>question = Some ''Lakers vs Celtics: total points over 220?'',
      outcomes = Some [''Over'', ''Under''],
      prices = Some [PNum 0.45, PNum 0.55]\<rparr>"

definition winner_quote :: market where
  "winner_quote =
     \<lparr>question = Some ''Will the Lakers win vs Celtics?'',
      outcomes = Some [''Lakers'', ''Celtics''],
      prices = Some [PNum 0.62, PNum 0.38]\<rparr>"

definition margin_quote :: market where
  "margin_quote =
     \<lparr>question = Some ''Lakers vs Celtics: result and margin'',
      outcomes = Some [''Lakers'', ''Celtics'', ''Lakers by 10+''],
      prices = Some [PNum 0.55, PNum 0.40, PNum 0.05]\<rparr>"

definition unpriced_quote :: market where
  "unpriced_quote =
     \<lparr>question = Some ''Will the Lakers win vs Celtics?'',
      outcomes = Some [''Lakers'', ''Celtics''],
      prices = Some [PNum 0.62, PNull]\<rparr>"

definition other_quote :: market where
  "other_quote =
     \<lparr>question = Some ''Will the Knicks win vs Heat?'',
      outcomes = Some [''Knicks'', ''Heat''],
      prices = Some [PNum 0.51, PNum 0.49]\<rparr>"


definition short_quote :: market where
  "short_quote =
     \<lparr>question = Some ''Lakers vs Celtics: result and margin'',
      outcomes = Some [''Lakers'', ''Celtics'', ''Lakers by 10+''],
      prices = Some [PNum 0.55, PNum 0.40]\<rparr>"




section \<open>Report builder and entry point\<close>

text \<open>A game record of the listing, with the six keys of lines 48 to 70.\<close>

record game =
  game_id :: string
  date :: string
  home_team :: string
  away_team :: string
  home_team_id :: int
  away_team_id :: int

text \<open>
  Lines 41 to 75: the listing is the fixed list of three games, dated \<open>today\<close>
  (the text that \<^verbatim>\<open>datetime.now().strftime('%Y-%m-%d')\<close> produced).
\<close>

definition get_today_games :: "string \<Rightarrow> game list" where
  "get_today_games today =
     [\<lparr>game_id = ''1'', date = today, home_team = ''Los Angeles Lakers'',
       away_team = ''Boston Celtics'', home_team_id = 14, away_team_id = 2\<rparr>,
      \<lparr>game_id = ''2'', date = today, home_team = ''New York Knicks'',
       away_team = ''Miami Heat'', home_team_id = 17, away_team_id = 15\<rparr>,
      \<lparr>game_id = ''3'', date = today, home_team = ''Golden State Warriors'',
       away_team = ''Phoenix Suns'', home_team_id = 11, away_team_id = 23\<rparr>]"

text \<open>
  What a run of the report builder takes from outside the program: the scorer of
  fuzzywuzzy, the response to the request sent for the \<open>k\<close>-th game of the list, the
  text of the time stamp of line 238, and Python's number formats \<^verbatim>\<open>.1%\<close> and
  \<^verbatim>\<open>.1f\<close>.
\<close>

record env =
  partial_ratio :: scorer
  responses :: "nat \<Rightarrow> response"
  now_text :: string
  percent1 :: "real \<Rightarrow> string"
  fixed1 :: "real \<Rightarrow> string"

text \<open>The marker of lines 237 and 286, as the UTF-8 bytes of the source file.\<close>

definition title_marker :: string where
  "title_marker = [CHR 0xEF, CHR 0xA3, CHR 0xBF, CHR 0xC3, CHR 0xBC, CHR 0xC3, CHR 0xA8, CHR 0xC3, CHR 0x84]"

text \<open>Lines 242 to 270: the six lines appended for one game.\<close>

definition game_lines :: "env \<Rightarrow> response \<Rightarrow> game \<Rightarrow> string list" where
  "game_lines e resp g =
     (case get_polymarket_probs (partial_ratio e) (home_team g) (away_team g) resp of
        (pm_home_prob, pm_away_prob) \<Rightarrow>
     (case model_probability (home_team_id g) (away_team_id g) of
        (model_home_prob, model_away_prob) \<Rightarrow>
     (case classify_edge model_home_prob pm_home_prob of
        (edge_label, emoji, edge_value) \<Rightarrow>
     (let home_stats = get_team_stats (home_team_id g);
          away_stats = get_team_stats (away_team_id g);
          home_net = off_rating home_stats - def_rating home_stats;
          away_net = off_rating away_stats - def_rating away_stats
      in [emoji @ '' <b>'' @ home_team g @ '' vs '' @ away_team g @ ''</b>'',
          ''Market: '' @ percent1 e pm_home_prob @ '' vs '' @ percent1 e pm_away_prob,
          ''Model: '' @ percent1 e model_home_prob @ '' vs '' @ percent1 e model_away_prob,
          ''Edge: '' @ percent1 e edge_value @ '' ('' @ edge_label @ '')'',
          ''Reason: '' @ home_team g @ '' Net Rating: '' @ fixed1 e home_net @ '', ''
             @ away_team g @ '' Net Rating: '' @ fixed1 e away_net,
          '''']))))"

text \<open>Lines 241 to 270: the loop over the games; \<open>k\<close> counts the requests sent so far.\<close>

fun games_loop :: "env \<Rightarrow> nat \<Rightarrow> game list \<Rightarrow> string list" where
  "games_loop e k [] = []"
| "games_loop e k (g # gs) = game_lines e (responses e k) g @ games_loop e (Suc k) gs"

text \<open>Lines 236 to 270: the list \<^verbatim>\<open>report\<close> before it is joined.\<close>

definition report_lines :: "env \<Rightarrow> game list \<Rightarrow> string list" where
  "report_lines e games =
     [title_marker @ '' NBA Value Betting Report'', ''Date: '' @ now_text e, '''']
     @ games_loop e 0 games"

text \<open>\<^verbatim>\<open>"\n".join(report)\<close> of line 272.\<close>

fun join_lines :: "string list \<Rightarrow> string" where
  "join_lines [] = []"
| "join_lines [l] = l"
| "join_lines (l # l' # ls) = l @ [CHR 0x0A] @ join_lines (l' # ls)"

definition build_report :: "env \<Rightarrow> game list \<Rightarrow> string" where
  "build_report e games = join_lines (report_lines e games)"

text \<open>The message of line 286.\<close>

definition no_games_message :: string where
  "no_games_message =
     title_marker @ '' NBA Value Betting Report'' @ [CHR 0x0A, CHR 0x0A]
       @ ''No games scheduled for today.''"

text \<open>
  Lines 285 to 295, for the list \<open>games\<close> that line 283 obtained.  The result is the
  list of the texts handed to \<^verbatim>\<open>send_telegram_message\<close>, which catches its own
  exceptions and returns a truth value that only selects a log entry.  No statement of the
  \<^verbatim>\<open>try\<close> block raises on game records, so the handler of line 302 is not a branch.
\<close>

definition main_from :: "env \<Rightarrow> game list \<Rightarrow> string list" where
  "main_from e games = (if games = [] then [no_games_message] else [build_report e games])"

definition main :: "env \<Rightarrow> string \<Rightarrow> string list" where
  "main e today = main_from e (get_today_games today)"











section \<open>Properties of the rating store, the estimator and the classifier\<close>

lemma logistic_denom_pos: "0 < 1 + exp (x::real)"
  by (simp add: add_pos_pos)

lemma logistic_bounds:
  fixes x :: real
  shows "0 < 1 / (1 + exp x)" and "1 / (1 + exp x) < 1"
  using exp_gt_zero [of x] by (simp_all add: add_pos_pos)

lemma logistic_clamp: "max 0 (min 1 (1 / (1 + exp (x::real)))) = 1 / (1 + exp x)"
  using logistic_bounds [of x] by (simp add: max_def min_def)

lemma model_probability_from_eq:
  "model_probability_from h a =
     (1 / (1 + exp (- ((off_rating h - def_rating h) - (off_rating a - def_rating a)) / 10)),
      1 - 1 / (1 + exp (- ((off_rating h - def_rating h) - (off_rating a - def_rating a)) / 10)))"
proof -
  let ?x = "- ((off_rating h - def_rating h) - (off_rating a - def_rating a)) / 10"
  have nz: "1 + exp ?x \<noteq> 0"
    using logistic_denom_pos [of ?x] by simp
  show ?thesis
    unfolding model_probability_from_def Let_def
    using nz logistic_clamp [of ?x] by simp
qed

text \<open>
  C1.  For all real \<open>model_p\<close> and \<open>market_p\<close> the classifier returns the edge
  \<open>model_p - market_p\<close> as it is (it may be negative), with the label GOOD BET when the
  edge is at least 0.07, SMALL EDGE when it is at least 0.03 and below 0.07, and NO BET
  otherwise.  The four examples of the specification evaluate as stated.
\<close>

theorem classify_edge_thresholds:
  "snd (snd (classify_edge model_p market_p)) = model_p - market_p
   \<and> (model_p - market_p \<ge> 0.07 \<longrightarrow> fst (classify_edge model_p market_p) = ''GOOD BET'')
   \<and> (0.03 \<le> model_p - market_p \<and> model_p - market_p < 0.07
        \<longrightarrow> fst (classify_edge model_p market_p) = ''SMALL EDGE'')
   \<and> (model_p - market_p < 0.03 \<longrightarrow> fst (classify_edge model_p market_p) = ''NO BET'')
   \<and> classify_edge 0.60 0.50 = (''GOOD BET'', good_marker, 0.10)
   \<and> classify_edge 0.54 0.50 = (''SMALL EDGE'', small_marker, 0.04)
   \<and> classify_edge 0.51 0.50 = (''NO BET'', none_marker, 0.01)
   \<and> classify_edge 0.40 0.50 = (''NO BET'', none_marker, - 0.10)"
  by (simp add: classify_edge_def Let_def)

theorem classify_edge_thresholds_witness:
  "((0.60::real) - 0.50 \<ge> 0.07 \<and> fst (classify_edge 0.60 0.50) = ''GOOD BET'')
   \<and> ((0.03::real) \<le> 0.54 - 0.50 \<and> (0.54::real) - 0.50 < 0.07
        \<and> fst (classify_edge 0.54 0.50) = ''SMALL EDGE'')
   \<and> ((0.40::real) - 0.50 < 0.03 \<and> fst (classify_edge 0.40 0.50) = ''NO BET''
        \<and> snd (snd (classify_edge 0.40 0.50)) = - 0.10)"
  using classify_edge_thresholds [of "0.60" "0.50"]
    classify_edge_thresholds [of "0.54" "0.50"]
    classify_edge_thresholds [of "0.40" "0.50"]
  by simp

text \<open>
  C2.  For every pair of rating records the estimator returns
  \<open>p_home = 1 / (1 + exp (- diff / 10))\<close> with
  \<open>diff = (home_off - home_def) - (away_off - away_def)\<close>; the clamp to \<open>[0,1]\<close>
  leaves that value unchanged; \<open>p_away = 1 - p_home\<close>; and when the two net ratings are
  equal the result is exactly \<open>(0.5, 0.5)\<close>.  \<^verbatim>\<open>model_probability\<close> applies this to the two
  records of the rating store.
\<close>

theorem model_probability_logistic:
  fixes home_stats away_stats :: rating
  shows
  "fst (model_probability_from home_stats away_stats)
     = 1 / (1 + exp (- ((off_rating home_stats - def_rating home_stats)
                        - (off_rating away_stats - def_rating away_stats)) / 10))
   \<and> fst (model_probability_from home_stats away_stats)
     = max 0 (min 1 (1 / (1 + exp (- ((off_rating home_stats - def_rating home_stats)
                        - (off_rating away_stats - def_rating away_stats)) / 10))))
   \<and> snd (model_probability_from home_stats away_stats)
     = 1 - fst (model_probability_from home_stats away_stats)
   \<and> (off_rating home_stats - def_rating home_stats = off_rating away_stats - def_rating away_stats
        \<longrightarrow> model_probability_from home_stats away_stats = (0.5, 0.5))
   \<and> model_probability home_id away_id
     = model_probability_from (get_team_stats home_id) (get_team_stats away_id)"
proof -
  have "off_rating home_stats - def_rating home_stats = off_rating away_stats - def_rating away_stats
        \<Longrightarrow> model_probability_from home_stats away_stats = (0.5, 0.5)"
    by (simp add: model_probability_from_eq)
  then show ?thesis
    by (simp add: model_probability_from_eq logistic_clamp model_probability_def)
qed

theorem model_probability_logistic_witness:
  "off_rating \<lparr>off_rating = 112, def_rating = 110\<rparr> - def_rating \<lparr>off_rating = 112, def_rating = 110\<rparr>
     = off_rating \<lparr>off_rating = 102, def_rating = 100\<rparr> - def_rating \<lparr>off_rating = 102, def_rating = 100\<rparr>
   \<and> model_probability_from \<lparr>off_rating = 112, def_rating = 110\<rparr> \<lparr>off_rating = 102, def_rating = 100\<rparr>
     = (0.5, 0.5)"
  using model_probability_logistic
    [of "\<lparr>off_rating = 112, def_rating = 110\<rparr>" "\<lparr>off_rating = 102, def_rating = 100\<rparr>"]
  by simp

text \<open>
  C6.  For every rating input the two returned probabilities sum to 1 and lie in
  \<open>[0,1]\<close>, and the returned \<open>p_home\<close> is strictly increasing in the difference of the
  net ratings \<open>home_net - away_net\<close>.  The sum and the bounds hold in particular for
  \<^verbatim>\<open>model_probability\<close> on every pair of team identifiers.
\<close>

theorem model_probability_sum_bounds_mono:
  fixes h a h' a' :: rating
  shows
  "fst (model_probability_from h a) + snd (model_probability_from h a) = 1
   \<and> 0 \<le> fst (model_probability_from h a) \<and> fst (model_probability_from h a) \<le> 1
   \<and> 0 \<le> snd (model_probability_from h a) \<and> snd (model_probability_from h a) \<le> 1
   \<and> ((off_rating h - def_rating h) - (off_rating a - def_rating a)
        < (off_rating h' - def_rating h') - (off_rating a' - def_rating a')
      \<longrightarrow> fst (model_probability_from h a) < fst (model_probability_from h' a'))
   \<and> fst (model_probability home_id away_id) + snd (model_probability home_id away_id) = 1
   \<and> 0 \<le> fst (model_probability home_id away_id) \<and> fst (model_probability home_id away_id) \<le> 1
   \<and> 0 \<le> snd (model_probability home_id away_id) \<and> snd (model_probability home_id away_id) \<le> 1"
proof -
  let ?d = "(off_rating h - def_rating h) - (off_rating a - def_rating a)"
  let ?i = "(off_rating (get_team_stats home_id) - def_rating (get_team_stats home_id))
            - (off_rating (get_team_stats away_id) - def_rating (get_team_stats away_id))"
  have bi: "0 < 1 / (1 + exp (- ?i / 10))" "1 / (1 + exp (- ?i / 10)) < 1"
    using logistic_bounds [of "- ?i / 10"] by simp_all
  have ids: "fst (model_probability home_id away_id) = 1 / (1 + exp (- ?i / 10))"
    "snd (model_probability home_id away_id) = 1 - 1 / (1 + exp (- ?i / 10))"
    by (simp_all add: model_probability_def model_probability_from_eq)
  let ?d' = "(off_rating h' - def_rating h') - (off_rating a' - def_rating a')"
  have b: "0 < 1 / (1 + exp (- ?d / 10))" "1 / (1 + exp (- ?d / 10)) < 1"
    using logistic_bounds [of "- ?d / 10"] by simp_all
  have mono: "1 / (1 + exp (- ?d / 10)) < 1 / (1 + exp (- ?d' / 10))" if lt: "?d < ?d'"
  proof -
    from lt have "- ?d' / 10 < - ?d / 10" by simp
    then have "exp (- ?d' / 10) < exp (- ?d / 10)" by (simp only: exp_less_cancel_iff)
    then have "1 + exp (- ?d' / 10) < 1 + exp (- ?d / 10)" by simp
    moreover have "0 < 1 + exp (- ?d' / 10)" by (rule logistic_denom_pos)
    ultimately show ?thesis by (simp only: frac_less2 order_refl zero_less_one)
  qed
  have sum: "fst (model_probability_from h a) + snd (model_probability_from h a) = 1"
    by (simp add: model_probability_from_eq)
  have f: "fst (model_probability_from h a) = 1 / (1 + exp (- ?d / 10))"
    and f': "fst (model_probability_from h' a') = 1 / (1 + exp (- ?d' / 10))"
    and s: "snd (model_probability_from h a) = 1 - 1 / (1 + exp (- ?d / 10))"
    by (simp_all add: model_probability_from_eq)
  show ?thesis
    unfolding f f' s ids using b bi mono by auto
qed

theorem model_probability_sum_bounds_mono_witness:
  "(off_rating (get_team_stats 14) - def_rating (get_team_stats 14))
      - (off_rating (get_team_stats 2) - def_rating (get_team_stats 2))
    < (off_rating (get_team_stats 2) - def_rating (get_team_stats 2))
      - (off_rating (get_team_stats 14) - def_rating (get_team_stats 14))
   \<and> fst (model_probability_from (get_team_stats 14) (get_team_stats 2))
     < fst (model_probability_from (get_team_stats 2) (get_team_stats 14))"
proof -
  have lt: "(off_rating (get_team_stats 14) - def_rating (get_team_stats 14))
      - (off_rating (get_team_stats 2) - def_rating (get_team_stats 2))
    < (off_rating (get_team_stats 2) - def_rating (get_team_stats 2))
      - (off_rating (get_team_stats 14) - def_rating (get_team_stats 14))"
    by (simp add: get_team_stats_def mock_stats_def)
  with model_probability_sum_bounds_mono
    [of "get_team_stats 14" "get_team_stats 2" "get_team_stats 2" "get_team_stats 14"]
  show ?thesis by blast
qed

text \<open>
  C7.  For every team identifier that is not a key of the rating store,
  \<^verbatim>\<open>get_team_stats\<close> returns the neutral rating 110.0 / 110.0; a known identifier
  returns its stored pair.  The function is total: it returns a rating for every
  identifier.
\<close>

theorem get_team_stats_default:
  "(team_id \<notin> dom mock_stats
      \<longrightarrow> get_team_stats team_id = \<lparr>off_rating = 110.0, def_rating = 110.0\<rparr>)
   \<and> (\<forall>stats. mock_stats team_id = Some stats \<longrightarrow> get_team_stats team_id = stats)
   \<and> dom mock_stats = {14, 2, 17, 15}
   \<and> get_team_stats 14 = \<lparr>off_rating = 115.2, def_rating = 108.7\<rparr>
   \<and> get_team_stats 2 = \<lparr>off_rating = 118.5, def_rating = 110.2\<rparr>
   \<and> get_team_stats 17 = \<lparr>off_rating = 112.8, def_rating = 109.1\<rparr>
   \<and> get_team_stats 15 = \<lparr>off_rating = 110.3, def_rating = 107.8\<rparr>"
proof -
  have "dom mock_stats = {14, 2, 17, 15}"
    by (auto simp: mock_stats_def)
  moreover have "team_id \<notin> dom mock_stats
      \<Longrightarrow> get_team_stats team_id = \<lparr>off_rating = 110.0, def_rating = 110.0\<rparr>"
    by (auto simp: get_team_stats_def dom_def)
  moreover have "\<And>stats. mock_stats team_id = Some stats \<Longrightarrow> get_team_stats team_id = stats"
    by (simp add: get_team_stats_def)
  moreover have "get_team_stats 14 = \<lparr>off_rating = 115.2, def_rating = 108.7\<rparr>"
    "get_team_stats 2 = \<lparr>off_rating = 118.5, def_rating = 110.2\<rparr>"
    "get_team_stats 17 = \<lparr>off_rating = 112.8, def_rating = 109.1\<rparr>"
    "get_team_stats 15 = \<lparr>off_rating = 110.3, def_rating = 107.8\<rparr>"
    by (simp_all add: get_team_stats_def mock_stats_def)
  ultimately show ?thesis by blast
qed

theorem get_team_stats_default_witness:
  "(11::int) \<notin> dom mock_stats
   \<and> get_team_stats 11 = \<lparr>off_rating = 110.0, def_rating = 110.0\<rparr>
   \<and> mock_stats 17 = Some \<lparr>off_rating = 112.8, def_rating = 109.1\<rparr>
   \<and> get_team_stats 17 = \<lparr>off_rating = 112.8, def_rating = 109.1\<rparr>"
proof -
  have "(11::int) \<notin> dom mock_stats"
    by (simp add: mock_stats_def)
  moreover have "mock_stats 17 = Some \<lparr>off_rating = 112.8, def_rating = 109.1\<rparr>"
    by (simp add: mock_stats_def)
  ultimately show ?thesis
    using get_team_stats_default [of 11] get_team_stats_default [of 17] by blast
qed

section \<open>Properties of the market matcher\<close>

subsection \<open>The loop over the outcomes\<close>

lemma outcome_loop_append:
  "outcome_loop pr H A i (xs @ ys) acc
     = outcome_loop pr H A (i + int (length xs)) ys (outcome_loop pr H A i xs acc)"
proof (induction xs arbitrary: i acc)
  case Nil
  show ?case by (cases acc) simp
next
  case (Cons x xs)
  obtain h a where acc: "acc = (h, a)" by (cases acc)
  show ?case
    unfolding acc by (simp add: Let_def Cons.IH add.assoc)
qed

lemma outcome_loop_snoc:
  "outcome_loop pr H A i (xs @ [x]) acc =
     (if pr (lower H) (lower x) > 75 then (i + int (length xs), snd (outcome_loop pr H A i xs acc))
      else if pr (lower A) (lower x) > 75 then (fst (outcome_loop pr H A i xs acc), i + int (length xs))
      else outcome_loop pr H A i xs acc)"
  unfolding outcome_loop_append
  by (cases "outcome_loop pr H A i xs acc") (simp add: Let_def)

lemma outcome_loop_home:
  "fst (outcome_loop pr H A i xs (h0, a0)) = h \<Longrightarrow>
     (h = h0 \<and> (\<forall>k<length xs. \<not> pr (lower H) (lower (xs ! k)) > 75))
     \<or> (\<exists>k<length xs. h = i + int k \<and> pr (lower H) (lower (xs ! k)) > 75
           \<and> (\<forall>j<length xs. k < j \<longrightarrow> \<not> pr (lower H) (lower (xs ! j)) > 75))"
proof (induction xs arbitrary: h rule: rev_induct)
  case Nil
  then show ?case by simp
next
  case (snoc x xs)
  show ?case
  proof (cases "pr (lower H) (lower x) > 75")
    case True
    with snoc.prems have "h = i + int (length xs)"
      by (simp add: outcome_loop_snoc)
    with True show ?thesis
      by (auto simp: nth_append intro!: exI [of _ "length xs"])
  next
    case False
    with snoc.prems have "fst (outcome_loop pr H A i xs (h0, a0)) = h"
      by (auto simp add: outcome_loop_snoc split: if_splits)
    from snoc.IH [OF this] False show ?thesis
      by (auto simp: nth_append less_Suc_eq)
  qed
qed

lemma outcome_loop_away:
  "snd (outcome_loop pr H A i xs (h0, a0)) = a \<Longrightarrow>
     (a = a0 \<and> (\<forall>k<length xs. \<not> (\<not> pr (lower H) (lower (xs ! k)) > 75 \<and> pr (lower A) (lower (xs ! k)) > 75)))
     \<or> (\<exists>k<length xs. a = i + int k \<and> \<not> pr (lower H) (lower (xs ! k)) > 75 \<and> pr (lower A) (lower (xs ! k)) > 75
           \<and> (\<forall>j<length xs. k < j \<longrightarrow> \<not> (\<not> pr (lower H) (lower (xs ! j)) > 75 \<and> pr (lower A) (lower (xs ! j)) > 75)))"
proof (induction xs arbitrary: a rule: rev_induct)
  case Nil
  then show ?case by simp
next
  case (snoc x xs)
  show ?case
  proof (cases "\<not> pr (lower H) (lower x) > 75 \<and> pr (lower A) (lower x) > 75")
    case True
    with snoc.prems have "a = i + int (length xs)"
      by (simp add: outcome_loop_snoc)
    with True show ?thesis
      by (auto simp: nth_append intro!: exI [of _ "length xs"])
  next
    case False
    with snoc.prems have "snd (outcome_loop pr H A i xs (h0, a0)) = a"
      by (auto simp add: outcome_loop_snoc split: if_splits)
    from snoc.IH [OF this] False show ?thesis
      by (auto simp: nth_append less_Suc_eq)
  qed
qed

lemma resolve_outcomes_distinct:
  assumes r: "resolve_outcomes pr H A outs = (h, a)" and h: "h \<noteq> - 1" and a: "a \<noteq> - 1"
  shows "h \<noteq> a \<and> 0 \<le> h \<and> 0 \<le> a \<and> nat h < length outs \<and> nat a < length outs
         \<and> pr (lower H) (lower (outs ! nat h)) > 75
         \<and> \<not> pr (lower H) (lower (outs ! nat a)) > 75
         \<and> pr (lower A) (lower (outs ! nat a)) > 75"
proof -
  from r have f: "fst (outcome_loop pr H A 0 outs (- 1, - 1)) = h"
    and s: "snd (outcome_loop pr H A 0 outs (- 1, - 1)) = a"
    by (simp_all add: resolve_outcomes_def)
  from outcome_loop_home [OF f] h obtain k where
    k: "k < length outs" "h = int k" "pr (lower H) (lower (outs ! k)) > 75"
    by auto
  from outcome_loop_away [OF s] a obtain l where
    l: "l < length outs" "a = int l" "\<not> pr (lower H) (lower (outs ! l)) > 75"
       "pr (lower A) (lower (outs ! l)) > 75"
    by auto
  from k l have "k \<noteq> l" by auto
  with k l show ?thesis by simp
qed

lemma market_body_not_usable:
  "\<not> usable pr H A m \<Longrightarrow> market_body pr H A m = Inr None"
  by (auto simp: usable_def candidate_def market_body_def Let_def split: option.splits prod.splits)

lemma market_body_usable:
  "usable pr H A m \<Longrightarrow>
     market_body pr H A m =
       (case extract_prices (prices_of m) (fst (resolve_outcomes pr H A (outcomes_of m)))
               (snd (resolve_outcomes pr H A (outcomes_of m))) of
          Inl e \<Rightarrow> Inl e | Inr r \<Rightarrow> Inr (Some r))"
  by (auto simp: usable_def candidate_def market_body_def Let_def split: option.splits prod.splits)

lemma markets_loop_skip:
  "\<forall>m \<in> set pre. \<not> usable pr H A m \<Longrightarrow>
     markets_loop pr H A (pre @ rest) = markets_loop pr H A rest"
  by (induction pre) (simp_all add: market_body_not_usable)

lemma markets_loop_none_usable:
  "\<forall>m \<in> set ms. \<not> usable pr H A m \<Longrightarrow> markets_loop pr H A ms = Inr (0.5, 0.5)"
  using markets_loop_skip [of ms pr H A "[]"] by simp

lemma markets_loop_first_usable:
  assumes "\<forall>m \<in> set pre. \<not> usable pr H A m" and "usable pr H A m"
  shows "markets_loop pr H A (pre @ m # post) =
           extract_prices (prices_of m) (fst (resolve_outcomes pr H A (outcomes_of m)))
               (snd (resolve_outcomes pr H A (outcomes_of m)))"
  using assms
  by (simp add: markets_loop_skip market_body_usable split: sum.splits)

lemma extract_prices_in_range:
  "0 \<le> h \<Longrightarrow> 0 \<le> a \<Longrightarrow> nat h < length ps \<Longrightarrow> nat a < length ps \<Longrightarrow>
     extract_prices ps h a = Inr (price_or_default (ps ! nat h), price_or_default (ps ! nat a))"
  by (simp add: extract_prices_def subscript_def Let_def nat_less_iff)

lemma extract_prices_out_of_range:
  "0 \<le> h \<Longrightarrow> 0 \<le> a \<Longrightarrow> \<not> (nat h < length ps \<and> nat a < length ps) \<Longrightarrow>
     extract_prices ps h a = Inl IndexError"
  by (auto simp: extract_prices_def subscript_def Let_def nat_less_iff split: sum.splits)


lemma market_body_SomeD:
  assumes "market_body pr H A m = Inr (Some r)"
  shows "usable pr H A m"
    and "extract_prices (prices_of m) (fst (resolve_outcomes pr H A (outcomes_of m)))
           (snd (resolve_outcomes pr H A (outcomes_of m))) = Inr r"
proof -
  show u: "usable pr H A m"
    using assms market_body_not_usable [of pr H A m] by auto
  from assms show "extract_prices (prices_of m) (fst (resolve_outcomes pr H A (outcomes_of m)))
           (snd (resolve_outcomes pr H A (outcomes_of m))) = Inr r"
    by (simp add: market_body_usable [OF u] split: sum.splits)
qed

lemma extract_prices_InrD:
  assumes "extract_prices ps h a = Inr (hp, ap)" and "0 \<le> h" and "0 \<le> a"
  shows "nat h < length ps \<and> nat a < length ps
         \<and> hp = price_or_default (ps ! nat h) \<and> ap = price_or_default (ps ! nat a)"
  using assms
  by (auto simp: extract_prices_def subscript_def Let_def nat_less_iff split: sum.splits if_splits)


text \<open>
  C5.  For the empty quote list, and for every quote list in which no quote is a
  candidate (no title in which, after normalisation, a variant of the home name and a
  variant of the away name both score above 75), the matcher returns the neutral pair
  \<open>(0.5, 0.5)\<close>.  It returns the same pair when the response has no quote list and
  when the request or the decoding raises.
\<close>

theorem no_candidate_neutral:
  "get_polymarket_probs pr home_name away_name (Inr (Some [])) = (0.5, 0.5)
   \<and> ((\<forall>m \<in> set markets. \<not> candidate pr home_name away_name m)
        \<longrightarrow> get_polymarket_probs pr home_name away_name (Inr (Some markets)) = (0.5, 0.5))
   \<and> get_polymarket_probs pr home_name away_name (Inr None) = (0.5, 0.5)
   \<and> get_polymarket_probs pr home_name away_name (Inl e) = (0.5, 0.5)"
proof -
  have "get_polymarket_probs pr home_name away_name (Inr (Some markets)) = (0.5, 0.5)"
    if "\<forall>m \<in> set markets. \<not> candidate pr home_name away_name m"
  proof -
    from that have "\<forall>m \<in> set markets. \<not> usable pr home_name away_name m"
      by (simp add: usable_def)
    then show ?thesis
      by (simp add: get_polymarket_probs_def markets_loop_none_usable)
  qed
  then show ?thesis
    by (simp add: get_polymarket_probs_def)
qed

theorem no_candidate_neutral_witness:
  "\<not> candidate containment_score ''Lakers'' ''Celtics'' other_quote
   \<and> get_polymarket_probs containment_score ''Lakers'' ''Celtics'' (Inr (Some [other_quote, other_quote]))
       = (0.5, 0.5)"
proof -
  have h: "\<not> candidate containment_score ''Lakers'' ''Celtics'' other_quote"
    unfolding other_quote_def by code_simp
  with no_candidate_neutral [of containment_score "''Lakers''" "''Celtics''" "[other_quote, other_quote]"]
  show ?thesis by simp
qed

text \<open>
  C4, as the specification states it, fails: the first candidate quote does not end the
  search when one of its sides cannot be resolved.  For the list of \<open>totals_quote\<close>, a
  candidate whose outcomes name neither team, and \<open>winner_quote\<close>, the matcher returns
  the prices of the second quote and not the neutral pair.
\<close>

theorem first_candidate_not_final:
  "candidate containment_score ''Lakers'' ''Celtics'' totals_quote
   \<and> resolve_outcomes containment_score ''Lakers'' ''Celtics'' (outcomes_of totals_quote) = (- 1, - 1)
   \<and> get_polymarket_probs containment_score ''Lakers'' ''Celtics''
        (Inr (Some [totals_quote, winner_quote])) = (0.62, 0.38)
   \<and> get_polymarket_probs containment_score ''Lakers'' ''Celtics''
        (Inr (Some [totals_quote, winner_quote])) \<noteq> (0.5, 0.5)"
  unfolding totals_quote_def winner_quote_def by code_simp

text \<open>
  C4, amended.  The first quote in input order that is usable (a candidate with at least
  two outcomes and two prices in which both sides are resolved) decides the result: its
  two prices, or the neutral pair when reading them raises.  Candidate quotes in which a
  side cannot be resolved are passed over like the quotes that are no candidates, and the
  neutral pair is returned when no quote of the list is usable.
\<close>

theorem first_usable_quote_wins:
  "((\<forall>m' \<in> set pre. \<not> usable pr home_name away_name m') \<and> usable pr home_name away_name m
      \<longrightarrow> get_polymarket_probs pr home_name away_name (Inr (Some (pre @ m # post)))
          = (case extract_prices (prices_of m)
                    (fst (resolve_outcomes pr home_name away_name (outcomes_of m)))
                    (snd (resolve_outcomes pr home_name away_name (outcomes_of m))) of
               Inl e \<Rightarrow> (0.5, 0.5)
             | Inr r \<Rightarrow> r))
   \<and> ((\<forall>m' \<in> set markets. \<not> usable pr home_name away_name m')
      \<longrightarrow> get_polymarket_probs pr home_name away_name (Inr (Some markets)) = (0.5, 0.5))"
  by (simp add: get_polymarket_probs_def markets_loop_first_usable markets_loop_none_usable)

theorem first_usable_quote_wins_witness:
  "\<not> usable containment_score ''Lakers'' ''Celtics'' totals_quote
   \<and> candidate containment_score ''Lakers'' ''Celtics'' totals_quote
   \<and> usable containment_score ''Lakers'' ''Celtics'' winner_quote
   \<and> get_polymarket_probs containment_score ''Lakers'' ''Celtics''
        (Inr (Some ([totals_quote] @ winner_quote # [other_quote]))) = (0.62, 0.38)
   \<and> \<not> usable containment_score ''Lakers'' ''Celtics'' other_quote
   \<and> get_polymarket_probs containment_score ''Lakers'' ''Celtics''
        (Inr (Some [totals_quote, other_quote])) = (0.5, 0.5)"
proof -
  have a: "\<not> usable containment_score ''Lakers'' ''Celtics'' totals_quote"
    unfolding totals_quote_def by code_simp
  have b: "usable containment_score ''Lakers'' ''Celtics'' winner_quote"
    unfolding winner_quote_def by code_simp
  have c: "candidate containment_score ''Lakers'' ''Celtics'' totals_quote"
    unfolding totals_quote_def by code_simp
  have d: "\<not> usable containment_score ''Lakers'' ''Celtics'' other_quote"
    unfolding other_quote_def by code_simp
  have e: "(case extract_prices (prices_of winner_quote)
                    (fst (resolve_outcomes containment_score ''Lakers'' ''Celtics'' (outcomes_of winner_quote)))
                    (snd (resolve_outcomes containment_score ''Lakers'' ''Celtics'' (outcomes_of winner_quote))) of
               Inl e \<Rightarrow> (0.5, 0.5)
             | Inr r \<Rightarrow> r) = (0.62, 0.38)"
    unfolding winner_quote_def by code_simp
  from a b c d e
    first_usable_quote_wins [of "[totals_quote]" containment_score "''Lakers''" "''Celtics''"
      winner_quote "[other_quote]" "[totals_quote, other_quote]"]
  show ?thesis by simp
qed

text \<open>
  C8, as the specification states it, fails: resolving both indices does not ensure that
  the price at each of them is returned.  In \<open>short_quote\<close> the outcome list is longer
  than the price list; the indices resolve to 2 and 1, the price 0.40 stands at index 1,
  and yet the matcher returns the neutral pair, because reading the price at index 2
  raises and the handler of line 178 takes over.
\<close>

theorem resolved_price_not_returned:
  "candidate containment_score ''Lakers'' ''Celtics'' short_quote
   \<and> resolve_outcomes containment_score ''Lakers'' ''Celtics'' (outcomes_of short_quote) = (2, 1)
   \<and> subscript (prices_of short_quote) 1 = Inr (PNum 0.40)
   \<and> price_or_default (PNum 0.40) = 0.40
   \<and> get_polymarket_probs containment_score ''Lakers'' ''Celtics''
        (Inr (Some [short_quote, winner_quote])) = (0.5, 0.5)
   \<and> snd (get_polymarket_probs containment_score ''Lakers'' ''Celtics''
        (Inr (Some [short_quote, winner_quote]))) \<noteq> 0.40"
  unfolding short_quote_def winner_quote_def by code_simp


text \<open>
  C8, amended.  When the matcher reaches a candidate quote with at least two outcomes and
  two prices in which both outcome indices are resolved, then: if both indices lie within
  the price list (as they do when the two lists have equal length), it returns the price
  at the home index and the price at the away index, where a price that is \<^verbatim>\<open>null\<close> or
  zero is replaced by 0.5; if one of the indices lies beyond the end of the price list, it
  returns the neutral pair \<open>(0.5, 0.5)\<close> and looks at no later quote.
\<close>

theorem resolved_prices_returned:
  assumes "\<forall>m' \<in> set pre. \<not> usable pr home_name away_name m'"
    and "candidate pr home_name away_name m"
    and "length (outcomes_of m) \<ge> 2" and "length (prices_of m) \<ge> 2"
    and "resolve_outcomes pr home_name away_name (outcomes_of m) = (h, a)"
    and "h \<noteq> - 1" and "a \<noteq> - 1"
  shows "get_polymarket_probs pr home_name away_name (Inr (Some (pre @ m # post)))
           = (if nat h < length (prices_of m) \<and> nat a < length (prices_of m)
              then (price_or_default (prices_of m ! nat h), price_or_default (prices_of m ! nat a))
              else (0.5, 0.5))
         \<and> (length (prices_of m) = length (outcomes_of m)
              \<longrightarrow> nat h < length (prices_of m) \<and> nat a < length (prices_of m))
         \<and> price_or_default PNull = 0.5 \<and> price_or_default (PNum 0) = 0.5
         \<and> (x \<noteq> 0 \<longrightarrow> price_or_default (PNum x) = x)"
proof -
  from assms have u: "usable pr home_name away_name m"
    by (simp add: usable_def)
  from resolve_outcomes_distinct [OF assms(5-7)]
  have nn: "0 \<le> h" "0 \<le> a"
    and rng: "nat h < length (outcomes_of m)" "nat a < length (outcomes_of m)"
    by simp_all
  have loop: "markets_loop pr home_name away_name (pre @ m # post)
          = extract_prices (prices_of m) h a"
    using markets_loop_first_usable [OF assms(1) u] assms(5) by simp
  have "get_polymarket_probs pr home_name away_name (Inr (Some (pre @ m # post)))
           = (if nat h < length (prices_of m) \<and> nat a < length (prices_of m)
              then (price_or_default (prices_of m ! nat h), price_or_default (prices_of m ! nat a))
              else (0.5, 0.5))"
  proof (cases "nat h < length (prices_of m) \<and> nat a < length (prices_of m)")
    case True
    with nn have "extract_prices (prices_of m) h a
        = Inr (price_or_default (prices_of m ! nat h), price_or_default (prices_of m ! nat a))"
      by (simp add: extract_prices_in_range)
    with True loop show ?thesis
      by (simp add: get_polymarket_probs_def)
  next
    case False
    with nn have "extract_prices (prices_of m) h a = Inl IndexError"
      by (rule extract_prices_out_of_range)
    with False loop show ?thesis
      by (auto simp add: get_polymarket_probs_def)
  qed
  with rng show ?thesis
    by (simp add: price_or_default_def)
qed


theorem resolved_prices_returned_witness:
  "\<not> usable containment_score ''Lakers'' ''Celtics'' totals_quote
   \<and> candidate containment_score ''Lakers'' ''Celtics'' unpriced_quote
   \<and> length (outcomes_of unpriced_quote) \<ge> 2 \<and> length (prices_of unpriced_quote) \<ge> 2
   \<and> resolve_outcomes containment_score ''Lakers'' ''Celtics'' (outcomes_of unpriced_quote) = (0, 1)
   \<and> (0::int) \<noteq> - 1 \<and> (1::int) \<noteq> - 1
   \<and> prices_of unpriced_quote = [PNum 0.62, PNull]
   \<and> get_polymarket_probs containment_score ''Lakers'' ''Celtics''
        (Inr (Some ([totals_quote] @ unpriced_quote # [winner_quote]))) = (0.62, 0.5)
   \<and> candidate containment_score ''Lakers'' ''Celtics'' short_quote
   \<and> length (outcomes_of short_quote) \<ge> 2 \<and> length (prices_of short_quote) \<ge> 2
   \<and> resolve_outcomes containment_score ''Lakers'' ''Celtics'' (outcomes_of short_quote) = (2, 1)
   \<and> (2::int) \<noteq> - 1
   \<and> prices_of short_quote = [PNum 0.55, PNum 0.40]
   \<and> get_polymarket_probs containment_score ''Lakers'' ''Celtics''
        (Inr (Some ([totals_quote] @ short_quote # [winner_quote]))) = (0.5, 0.5)"
proof -
  have a: "\<not> usable containment_score ''Lakers'' ''Celtics'' totals_quote"
    unfolding totals_quote_def by code_simp
  then have a': "\<forall>m' \<in> set [totals_quote]. \<not> usable containment_score ''Lakers'' ''Celtics'' m'"
    by simp
  have b: "candidate containment_score ''Lakers'' ''Celtics'' unpriced_quote"
    unfolding unpriced_quote_def by code_simp
  have c: "length (outcomes_of unpriced_quote) \<ge> 2" "length (prices_of unpriced_quote) \<ge> 2"
    by (simp_all add: unpriced_quote_def outcomes_of_def prices_of_def)
  have d: "resolve_outcomes containment_score ''Lakers'' ''Celtics'' (outcomes_of unpriced_quote) = (0, 1)"
    unfolding unpriced_quote_def by code_simp
  have p: "prices_of unpriced_quote = [PNum 0.62, PNull]"
    by (simp add: unpriced_quote_def prices_of_def)
  have b': "candidate containment_score ''Lakers'' ''Celtics'' short_quote"
    unfolding short_quote_def by code_simp
  have c': "length (outcomes_of short_quote) \<ge> 2" "length (prices_of short_quote) \<ge> 2"
    by (simp_all add: short_quote_def outcomes_of_def prices_of_def)
  have d': "resolve_outcomes containment_score ''Lakers'' ''Celtics'' (outcomes_of short_quote) = (2, 1)"
    unfolding short_quote_def by code_simp
  have p': "prices_of short_quote = [PNum 0.55, PNum 0.40]"
    by (simp add: short_quote_def prices_of_def)
  have one: "get_polymarket_probs containment_score ''Lakers'' ''Celtics''
        (Inr (Some ([totals_quote] @ unpriced_quote # [winner_quote]))) = (0.62, 0.5)"
    using resolved_prices_returned [OF a' b c d, of "[winner_quote]"]
    by (simp add: p price_or_default_def)
  have two: "get_polymarket_probs containment_score ''Lakers'' ''Celtics''
        (Inr (Some ([totals_quote] @ short_quote # [winner_quote]))) = (0.5, 0.5)"
    using resolved_prices_returned [OF a' b' c' d', of "[winner_quote]"]
    by (simp add: p')
  from a b c d p b' c' d' p' one two show ?thesis
    by simp
qed

text \<open>
  C3, as the specification states it, fails: the index assigned to a side is not the
  first one whose label crosses the threshold.  In \<open>margin_quote\<close> the label at index 0
  crosses the threshold for the home name, yet index 2 is assigned to the home side and
  the price at index 2 is returned.
\<close>

theorem outcome_index_not_first:
  "75 < containment_score (lower ''Lakers'') (lower (outcomes_of margin_quote ! 0))
   \<and> resolve_outcomes containment_score ''Lakers'' ''Celtics'' (outcomes_of margin_quote) = (2, 1)
   \<and> get_polymarket_probs containment_score ''Lakers'' ''Celtics'' (Inr (Some [margin_quote]))
       = (0.05, 0.40)"
  unfolding margin_quote_def by code_simp

text \<open>
  C3, amended.  Each outcome label is tested against the lower-cased team names (not
  the variants) at the threshold of 75, the home name first and the away name only when
  the home name does not cross the threshold.  The index assigned to the home side is the
  last index whose label crosses the threshold for the home name, and the index assigned
  to the away side is the last index whose label crosses it for the away name and not for
  the home name; a side without such an index keeps \<open>-1\<close>.
\<close>

theorem outcome_index_last_match:
  assumes "resolve_outcomes pr home_name away_name outs = (h, a)"
  shows
    "((h = - 1 \<and> (\<forall>k<length outs. \<not> pr (lower home_name) (lower (outs ! k)) > 75))
      \<or> (0 \<le> h \<and> nat h < length outs
          \<and> pr (lower home_name) (lower (outs ! nat h)) > 75
          \<and> (\<forall>j<length outs. nat h < j \<longrightarrow> \<not> pr (lower home_name) (lower (outs ! j)) > 75)))
     \<and> ((a = - 1 \<and> (\<forall>k<length outs. \<not> (\<not> pr (lower home_name) (lower (outs ! k)) > 75
                                           \<and> pr (lower away_name) (lower (outs ! k)) > 75)))
      \<or> (0 \<le> a \<and> nat a < length outs
          \<and> \<not> pr (lower home_name) (lower (outs ! nat a)) > 75
          \<and> pr (lower away_name) (lower (outs ! nat a)) > 75
          \<and> (\<forall>j<length outs. nat a < j \<longrightarrow> \<not> (\<not> pr (lower home_name) (lower (outs ! j)) > 75
                                           \<and> pr (lower away_name) (lower (outs ! j)) > 75))))"
proof -
  from assms have f: "fst (outcome_loop pr home_name away_name 0 outs (- 1, - 1)) = h"
    and s: "snd (outcome_loop pr home_name away_name 0 outs (- 1, - 1)) = a"
    by (simp_all add: resolve_outcomes_def)
  show ?thesis
    using outcome_loop_home [OF f] outcome_loop_away [OF s]
    by (intro conjI) (elim disjE exE conjE; simp)+
qed

theorem outcome_index_last_match_witness:
  "resolve_outcomes containment_score ''Lakers'' ''Celtics'' (outcomes_of margin_quote) = (2, 1)
   \<and> 75 < containment_score (lower ''Lakers'') (lower (outcomes_of margin_quote ! 0))
   \<and> 75 < containment_score (lower ''Lakers'') (lower (outcomes_of margin_quote ! 2))
   \<and> \<not> 75 < containment_score (lower ''Lakers'') (lower (outcomes_of margin_quote ! 1))
   \<and> 75 < containment_score (lower ''Celtics'') (lower (outcomes_of margin_quote ! 1))"
proof -
  have r: "resolve_outcomes containment_score ''Lakers'' ''Celtics'' (outcomes_of margin_quote) = (2, 1)"
    unfolding margin_quote_def by code_simp
  have z: "75 < containment_score (lower ''Lakers'') (lower (outcomes_of margin_quote ! 0))"
    unfolding margin_quote_def by code_simp
  from outcome_index_last_match [OF r] r z show ?thesis
    by simp
qed


text \<open>
  C10.  Whenever the body of the loop returns prices read from a quote, the two resolved
  indices are distinct and within both lists, the label at the home index crosses the
  threshold for the home name, the label at the away index does not, and the two returned
  probabilities are read from these two different entries of the price list.
\<close>

theorem resolved_indices_distinct:
  assumes "market_body pr home_name away_name m = Inr (Some (home_prob, away_prob))"
    and "resolve_outcomes pr home_name away_name (outcomes_of m) = (h, a)"
  shows "h \<noteq> a \<and> 0 \<le> h \<and> 0 \<le> a \<and> nat h \<noteq> nat a
         \<and> nat h < length (outcomes_of m) \<and> nat a < length (outcomes_of m)
         \<and> nat h < length (prices_of m) \<and> nat a < length (prices_of m)
         \<and> pr (lower home_name) (lower (outcomes_of m ! nat h)) > 75
         \<and> \<not> pr (lower home_name) (lower (outcomes_of m ! nat a)) > 75
         \<and> home_prob = price_or_default (prices_of m ! nat h)
         \<and> away_prob = price_or_default (prices_of m ! nat a)"
proof -
  from market_body_SomeD [OF assms(1)] assms(2)
  have u: "usable pr home_name away_name m"
    and e: "extract_prices (prices_of m) h a = Inr (home_prob, away_prob)"
    by simp_all
  from u assms(2) have "h \<noteq> - 1" "a \<noteq> - 1"
    by (simp_all add: usable_def)
  from resolve_outcomes_distinct [OF assms(2) this]
  have d: "h \<noteq> a" "0 \<le> h" "0 \<le> a" "nat h < length (outcomes_of m)" "nat a < length (outcomes_of m)"
    "pr (lower home_name) (lower (outcomes_of m ! nat h)) > 75"
    "\<not> pr (lower home_name) (lower (outcomes_of m ! nat a)) > 75"
    by simp_all
  from extract_prices_InrD [OF e d(2,3)] d show ?thesis
    by simp
qed

theorem resolved_indices_distinct_witness:
  "market_body containment_score ''Lakers'' ''Celtics'' margin_quote = Inr (Some (0.05, 0.40))
   \<and> resolve_outcomes containment_score ''Lakers'' ''Celtics'' (outcomes_of margin_quote) = (2, 1)
   \<and> (2::int) \<noteq> 1 \<and> nat 2 \<noteq> nat 1
   \<and> 0.05 = price_or_default (prices_of margin_quote ! nat 2)
   \<and> 0.40 = price_or_default (prices_of margin_quote ! nat 1)"
proof -
  have b: "market_body containment_score ''Lakers'' ''Celtics'' margin_quote = Inr (Some (0.05, 0.40))"
    unfolding margin_quote_def by code_simp
  have r: "resolve_outcomes containment_score ''Lakers'' ''Celtics'' (outcomes_of margin_quote) = (2, 1)"
    unfolding margin_quote_def by code_simp
  from resolved_indices_distinct [OF b r] b r show ?thesis
    by simp
qed

section \<open>Properties of the entry point\<close>










end
